theory Spec2Isabelle
  imports Complex_Main
begin

section \<open>Numbers, errors and Python sequences\<close>

text \<open>
  The fault model of \<^verbatim>\<open>models/disloc.py\<close> computes with floats. They are embedded as
  reals: rounding and overflow are outside this development. Indexing a list out of range
  raises \<^verbatim>\<open>IndexError\<close> and \<^verbatim>\<open>numpy.vstack\<close> raises \<^verbatim>\<open>ValueError\<close>.

  The node list of a path is untyped, so the coordinates the module divides are whatever
  the caller supplied. On builtin Python floats \<^verbatim>\<open>a / b\<close> raises
  \<^verbatim>\<open>ZeroDivisionError\<close> when \<^verbatim>\<open>b == 0.0\<close>: this is \<open>float_div\<close>, and the path
  operations below are the module run on builtin floats. On \<^verbatim>\<open>numpy.float64\<close>
  operands the same division raises nothing and gives an infinity or NaN: this is
  \<open>numpy_div\<close>, used by \<open>newSegment_numpy\<close>.
\<close>

datatype error = IndexError | ZeroDivisionError | ValueError

definition d2r :: real where
  "d2r = pi / 180"

definition r2d :: real where
  "r2d = 180 / pi"

definition float_div :: "real \<Rightarrow> real \<Rightarrow> error + real" where
  "float_div a b = (if b = 0 then Inl ZeroDivisionError else Inr (a / b))"

text \<open>
  A \<^verbatim>\<open>numpy.float64\<close> result: a real, an infinity or NaN. Division by zero gives NaN
  for \<open>0/0\<close> and an infinity otherwise; \<^verbatim>\<open>numpy.arccos\<close> is NaN outside \<open>[-1, 1]\<close>;
  a product with NaN is NaN.
\<close>

datatype float64 = Finite real | PosInf | NegInf | NaN

definition numpy_div :: "real \<Rightarrow> real \<Rightarrow> float64" where
  "numpy_div a b =
     (if b \<noteq> 0 then Finite (a / b)
      else if a = 0 then NaN
      else if 0 < a then PosInf else NegInf)"

definition numpy_arccos :: "float64 \<Rightarrow> float64" where
  "numpy_arccos x =
     (case x of
        Finite q \<Rightarrow> (if - 1 \<le> q \<and> q \<le> 1 then Finite (arccos q) else NaN)
      | PosInf \<Rightarrow> NaN
      | NegInf \<Rightarrow> NaN
      | NaN \<Rightarrow> NaN)"

definition numpy_mult :: "float64 \<Rightarrow> real \<Rightarrow> float64" where
  "numpy_mult x r =
     (case x of
        Finite q \<Rightarrow> Finite (q * r)
      | PosInf \<Rightarrow> (if 0 < r then PosInf else if r < 0 then NegInf else NaN)
      | NegInf \<Rightarrow> (if 0 < r then NegInf else if r < 0 then PosInf else NaN)
      | NaN \<Rightarrow> NaN)"

text \<open>
  \<^verbatim>\<open>xs[i]\<close>: a negative index counts from the end; \<open>norm_index\<close> is the position
  that is read or written, or \<open>IndexError\<close>.
\<close>

definition norm_index :: "'a list \<Rightarrow> int \<Rightarrow> error + nat" where
  "norm_index xs i =
     (if 0 \<le> i \<and> i < int (length xs) then Inr (nat i)
      else if i < 0 \<and> 0 \<le> i + int (length xs) then Inr (nat (i + int (length xs)))
      else Inl IndexError)"

definition getitem :: "'a list \<Rightarrow> int \<Rightarrow> error + 'a" where
  "getitem xs i = (case norm_index xs i of Inl err \<Rightarrow> Inl err | Inr k \<Rightarrow> Inr (xs ! k))"

definition setitem :: "'a list \<Rightarrow> int \<Rightarrow> 'a \<Rightarrow> error + 'a list" where
  "setitem xs i v = (case norm_index xs i of Inl err \<Rightarrow> Inl err | Inr k \<Rightarrow> Inr (xs[k := v]))"

text \<open>
  \<^verbatim>\<open>xs.insert(i, v)\<close> never raises: a negative index counts from the end and the
  position is clipped to \<open>[0, len(xs)]\<close>.
\<close>

definition list_insert :: "'a list \<Rightarrow> int \<Rightarrow> 'a \<Rightarrow> 'a list" where
  "list_insert xs i v =
     (let j = (if i < 0 then max 0 (i + int (length xs)) else min i (int (length xs)))
      in take (nat j) xs @ v # drop (nat j) xs)"

section \<open>OkadaSource and OkadaSegment\<close>

record OkadaSource =
  easting :: real
  northing :: real
  depth :: real
  width :: real
  length_m :: real
  strike :: real
  dip :: real
  rake :: real
  slip :: real
  nu :: real
  "opening" :: real

record OkadaSegment = OkadaSource +
  enabled :: bool

text \<open>
  \<^verbatim>\<open>OkadaSource.dislocSource\<close>, called without \<^verbatim>\<open>dsrc\<close> as everywhere in the
  module: the ten entries written into a fresh vector.
\<close>

definition dislocSource :: "'a OkadaSource_scheme \<Rightarrow> real list" where
  "dislocSource self =
     (let dip' = (if dip self = 90 then dip self - 1 / 100000 else dip self);
          ss_slip = cos (rake self * d2r) * slip self;
          ds_slip = sin (rake self * d2r) * slip self
      in [length_m self, width self, depth self, - dip', strike self,
          easting self, northing self, ss_slip, ds_slip, opening self])"

section \<open>OkadaPath\<close>

record OkadaPath =
  origin_easting :: real
  origin_northing :: real
  nu :: real
  nodes :: "(real \<times> real) list"
  segments :: "OkadaSegment list"

text \<open>
  A method of \<^verbatim>\<open>OkadaPath\<close> mutates \<^verbatim>\<open>self\<close> and returns nothing, or raises. Its
  model returns the exception, if any, together with the path as the call leaves it: what
  was mutated before an exception stays mutated.
\<close>

type_synonym outcome = "error option \<times> OkadaPath"

text \<open>\<^verbatim>\<open>OkadaPath.__init__\<close>: a path given no nodes starts from its origin.\<close>

definition init_path :: "real \<Rightarrow> real \<Rightarrow> real \<Rightarrow> (real \<times> real) list \<Rightarrow> OkadaPath" where
  "init_path oe on nu0 ns =
     \<lparr>origin_easting = oe, origin_northing = on, nu = nu0,
      nodes = (if ns = [] then [(oe, on)] else ns), segments = []\<rparr>"

text \<open>
  \<^verbatim>\<open>_newSegment(e1, n1, e2, n2, **kwargs)\<close>. The dictionary literal is evaluated in
  the order it is written, so the only operation that can raise is \<^verbatim>\<open>dN/length\<close>.
  \<open>kwargs\<close> stands for the overrides applied by \<^verbatim>\<open>segment.update(kwargs)\<close>; the
  fields the dictionary leaves out take the defaults of the class.
\<close>

definition newSegment ::
  "real \<Rightarrow> real \<Rightarrow> real \<Rightarrow> real \<Rightarrow> (OkadaSegment \<Rightarrow> OkadaSegment) \<Rightarrow> error + OkadaSegment" where
  "newSegment e1 n1 e2 n2 kwargs =
     (let dE = e2 - e1; dN = n2 - n1; len = sqrt (dN\<^sup>2 + dE\<^sup>2)
      in case float_div dN len of
           Inl err \<Rightarrow> Inl err
         | Inr q \<Rightarrow>
             Inr (kwargs
               \<lparr>easting = e1 + dE / 2, northing = n1 + dN / 2, depth = 0,
                width = 15 * len powr (66 / 100), length_m = len, strike = arccos q * r2d,
                dip = 45, rake = 90, slip = 45, nu = 5 / 4, opening = 0, enabled = True\<rparr>))"

text \<open>
  \<^verbatim>\<open>_newSegment\<close> on \<^verbatim>\<open>numpy.float64\<close> coordinates: the same statements, where no
  operation raises. The segment is built from the same dictionary; its strike is the only
  entry that can be other than a real.
\<close>

record numpy_segment =
  np_easting :: real
  np_northing :: real
  np_depth :: real
  np_width :: real
  np_length :: real
  np_strike :: float64
  np_dip :: real
  np_rake :: real
  np_slip :: real
  np_nu :: real
  np_opening :: real
  np_enabled :: bool

definition newSegment_numpy ::
  "real \<Rightarrow> real \<Rightarrow> real \<Rightarrow> real \<Rightarrow> (numpy_segment \<Rightarrow> numpy_segment)
     \<Rightarrow> error + numpy_segment" where
  "newSegment_numpy e1 n1 e2 n2 kwargs =
     (let dE = e2 - e1; dN = n2 - n1; len = sqrt (dN\<^sup>2 + dE\<^sup>2)
      in Inr (kwargs
           \<lparr>np_easting = e1 + dE / 2, np_northing = n1 + dN / 2, np_depth = 0,
            np_width = 15 * len powr (66 / 100), np_length = len,
            np_strike = numpy_mult (numpy_arccos (numpy_div dN len)) r2d,
            np_dip = 45, np_rake = 90, np_slip = 45, np_nu = 5 / 4, np_opening = 0,
            np_enabled = True\<rparr>))"

text \<open>
  \<^verbatim>\<open>_moveSegment(pos, e1, n1, e2, n2)\<close>: the update dictionary is computed first, then
  \<^verbatim>\<open>self.segments[pos]\<close> is read and five of its attributes are overwritten.
\<close>

definition moveSegment :: "int \<Rightarrow> real \<Rightarrow> real \<Rightarrow> real \<Rightarrow> real \<Rightarrow> OkadaPath \<Rightarrow> outcome" where
  "moveSegment pos e1 n1 e2 n2 self =
     (let dE = e2 - e1; dN = n2 - n1; len = sqrt (dN\<^sup>2 + dE\<^sup>2)
      in case float_div dN len of
           Inl err \<Rightarrow> (Some err, self)
         | Inr q \<Rightarrow>
             (case norm_index (segments self) pos of
                Inl err \<Rightarrow> (Some err, self)
              | Inr k \<Rightarrow>
                  (None, self\<lparr>segments := (segments self)
                     [k := (segments self ! k)
                        \<lparr>easting := e1 + dE / 2, northing := n1 + dN / 2,
                         width := 15 * len powr (66 / 100), length_m := len,
                         strike := arccos q * r2d\<rparr>]\<rparr>)))"

text \<open>The four coordinates \<^verbatim>\<open>nodes[i][0], nodes[i][1], nodes[j][0], nodes[j][1]\<close>.\<close>

definition node_pair ::
  "(real \<times> real) list \<Rightarrow> int \<Rightarrow> int \<Rightarrow> error + (real \<times> real \<times> real \<times> real)" where
  "node_pair ns i j =
     (case getitem ns i of
        Inl err \<Rightarrow> Inl err
      | Inr (e1, n1) \<Rightarrow>
          (case getitem ns j of
             Inl err \<Rightarrow> Inl err
           | Inr (e2, n2) \<Rightarrow> Inr (e1, n1, e2, n2)))"

definition addNode :: "real \<Rightarrow> real \<Rightarrow> OkadaPath \<Rightarrow> outcome" where
  "addNode e n self =
     (let self1 = self\<lparr>nodes := nodes self @ [(e, n)]\<rparr>
      in case node_pair (nodes self1) (- 2) (- 1) of
           Inl err \<Rightarrow> (Some err, self1)
         | Inr (e1, n1, e2, n2) \<Rightarrow>
             (case newSegment e1 n1 e2 n2 (\<lambda>s. s) of
                Inl err \<Rightarrow> (Some err, self1)
              | Inr seg \<Rightarrow> (None, self1\<lparr>segments := segments self1 @ [seg]\<rparr>)))"

definition insertNode :: "int \<Rightarrow> real \<Rightarrow> real \<Rightarrow> OkadaPath \<Rightarrow> outcome" where
  "insertNode pos e n self =
     (let self1 = self\<lparr>nodes := list_insert (nodes self) pos (e, n)\<rparr>
      in case node_pair (nodes self1) pos (pos + 1) of
           Inl err \<Rightarrow> (Some err, self1)
         | Inr (e1, n1, e2, n2) \<Rightarrow>
             (case newSegment e1 n1 e2 n2 (\<lambda>s. s) of
                Inl err \<Rightarrow> (Some err, self1)
              | Inr seg \<Rightarrow>
                  (let self2 = self1\<lparr>segments := segments self1 @ [seg]\<rparr>
                   in case node_pair (nodes self2) (pos - 1) pos of
                        Inl err \<Rightarrow> (Some err, self2)
                      | Inr (a1, b1, a2, b2) \<Rightarrow> moveSegment (pos - 1) a1 b1 a2 b2 self2)))"

text \<open>\<^verbatim>\<open>moveNode\<close>; \<^verbatim>\<open>len(self)\<close> is the number of segments. Both calls of
  \<^verbatim>\<open>_moveSegment\<close> are given \<^verbatim>\<open>pos\<close>, as in the source.\<close>

definition moveNode :: "int \<Rightarrow> real \<Rightarrow> real \<Rightarrow> OkadaPath \<Rightarrow> outcome" where
  "moveNode pos e n self =
     (case setitem (nodes self) pos (e, n) of
        Inl err \<Rightarrow> (Some err, self)
      | Inr ns \<Rightarrow>
          (let self1 = self\<lparr>nodes := ns\<rparr>;
               r1 = (if pos < int (length (segments self1))
                     then (case node_pair (nodes self1) pos (pos + 1) of
                             Inl err \<Rightarrow> (Some err, self1)
                           | Inr (e1, n1, e2, n2) \<Rightarrow> moveSegment pos e1 n1 e2 n2 self1)
                     else (None, self1))
           in case r1 of
                (Some err, self2) \<Rightarrow> (Some err, self2)
              | (None, self2) \<Rightarrow>
                  (if pos \<noteq> 0
                   then (case node_pair (nodes self2) (pos - 1) pos of
                           Inl err \<Rightarrow> (Some err, self2)
                         | Inr (e1, n1, e2, n2) \<Rightarrow> moveSegment pos e1 n1 e2 n2 self2)
                   else (None, self2))))"

section \<open>Batch matrices and the processor\<close>

text \<open>
  A numpy array of floats with one axis (\<open>Vec\<close>) or two (\<open>Mat\<close>, a list of rows).
  \<^verbatim>\<open>num.array\<close> of a list of ten-entry vectors has two axes, and of the empty list
  one axis of length 0.
\<close>

datatype ndarray = Vec "real list" | Mat "real list list"

definition num_array :: "real list list \<Rightarrow> ndarray" where
  "num_array rows = (if rows = [] then Vec [] else Mat rows)"

text \<open>\<^verbatim>\<open>OkadaPath.dislocSource\<close>: the vectors of the enabled segments, in order.\<close>

definition path_dislocSource :: "OkadaPath \<Rightarrow> ndarray" where
  "path_dislocSource self = num_array (map dislocSource (filter enabled (segments self)))"

text \<open>
  \<^verbatim>\<open>numpy.vstack\<close>: every array is given two axes (\<^verbatim>\<open>atleast_2d\<close>: a vector becomes
  one row), and the arrays are concatenated along the first axis, which needs at least
  one array and the same number of columns in all of them.
\<close>

definition atleast_2d :: "ndarray \<Rightarrow> real list list" where
  "atleast_2d a = (case a of Vec v \<Rightarrow> [v] | Mat rows \<Rightarrow> rows)"

definition ncols :: "real list list \<Rightarrow> nat" where
  "ncols m = (case m of [] \<Rightarrow> 0 | r # _ \<Rightarrow> length r)"

definition vstack :: "ndarray list \<Rightarrow> error + real list list" where
  "vstack arrs =
     (case map atleast_2d arrs of
        [] \<Rightarrow> Inl ValueError
      | m # ms \<Rightarrow>
          (if list_all (\<lambda>m'. ncols m' = ncols m) ms then Inr (concat (m # ms))
           else Inl ValueError))"

text \<open>What \<^verbatim>\<open>process\<close> accepts as a source: an \<^verbatim>\<open>OkadaSource\<close> or an
  \<^verbatim>\<open>OkadaPath\<close>, each with its own \<^verbatim>\<open>dislocSource\<close> and \<^verbatim>\<open>nu\<close>.\<close>

datatype source = Patch OkadaSource | Path OkadaPath

definition source_dislocSource :: "source \<Rightarrow> ndarray" where
  "source_dislocSource src =
     (case src of Patch s \<Rightarrow> Vec (dislocSource s) | Path p \<Rightarrow> path_dislocSource p)"

definition source_nu :: "source \<Rightarrow> real" where
  "source_nu src = (case src of Patch s \<Rightarrow> OkadaSource.nu s | Path p \<Rightarrow> OkadaPath.nu p)"

text \<open>
  The arguments \<^verbatim>\<open>process\<close> hands to \<^verbatim>\<open>disloc_ext.disloc\<close>, or the exception raised
  before the call. The module is Python 2: after the list comprehension its variable
  \<^verbatim>\<open>src\<close> is still bound, to the last element of \<^verbatim>\<open>sources\<close>.
\<close>

record 'c solver_args =
  src_arr :: "real list list"
  coords :: 'c
  arg_nu :: real
  nthreads :: int

definition solver_call :: "source list \<Rightarrow> 'c \<Rightarrow> int \<Rightarrow> error + 'c solver_args" where
  "solver_call sources cs nt =
     (case vstack (map source_dislocSource sources) of
        Inl err \<Rightarrow> Inl err
      | Inr arr \<Rightarrow>
          Inr \<lparr>src_arr = arr, coords = cs, arg_nu = source_nu (last sources), nthreads = nt\<rparr>)"

record displacement =
  processor_profile :: "(string \<times> real) list"
  north :: "real list"
  east :: "real list"
  down :: "real list"

text \<open>
  \<^verbatim>\<open>DislocProcessor.process\<close>. The native routine \<^verbatim>\<open>disloc_ext.disloc\<close> is a
  parameter: it returns one row of three displacements for each coordinate, or raises.
\<close>

definition process ::
  "('c solver_args \<Rightarrow> error + (real \<times> real \<times> real) list) \<Rightarrow> source list \<Rightarrow> 'c \<Rightarrow> int
     \<Rightarrow> error + displacement" where
  "process disloc sources cs nt =
     (case solver_call sources cs nt of
        Inl err \<Rightarrow> Inl err
      | Inr args \<Rightarrow>
          (case disloc args of
             Inl err \<Rightarrow> Inl err
           | Inr res \<Rightarrow>
               Inr \<lparr>processor_profile = [], north = map (\<lambda>(x, y, z). x) res,
                    east = map (\<lambda>(x, y, z). y) res, down = map (\<lambda>(x, y, z). z) res\<rparr>))"

section \<open>Paths built by calls\<close>

text \<open>A history of edits on one path: the calls \<^verbatim>\<open>addNode\<close>, \<^verbatim>\<open>insertNode\<close> and
  \<^verbatim>\<open>moveNode\<close> with their arguments. \<open>calls_ok\<close> runs a history in which every call
  returns, and gives the path it ends on; it is \<open>None\<close> as soon as a call raises.\<close>

datatype call = AddNode real real | InsertNode int real real | MoveNode int real real

definition call_path :: "call \<Rightarrow> OkadaPath \<Rightarrow> outcome" where
  "call_path c self =
     (case c of
        AddNode e n \<Rightarrow> addNode e n self
      | InsertNode pos e n \<Rightarrow> insertNode pos e n self
      | MoveNode pos e n \<Rightarrow> moveNode pos e n self)"

fun calls_ok :: "call list \<Rightarrow> OkadaPath \<Rightarrow> OkadaPath option" where
  "calls_ok [] self = Some self"
| "calls_ok (c # cs) self =
     (case call_path c self of
        (None, self') \<Rightarrow> calls_ok cs self'
      | (Some err, self') \<Rightarrow> None)"

text \<open>Example paths: nodes \<open>(0,0), (0,1)\<close>; nodes \<open>(0,0), (0,2), (0,4)\<close>; and the path a
  failed \<^verbatim>\<open>insertNode(1, 0, 1)\<close> leaves behind on a path of one node.\<close>

definition two_nodes :: OkadaPath where
  "two_nodes = snd (addNode 0 1 (init_path 0 0 (5 / 4) []))"

definition three_nodes :: OkadaPath where
  "three_nodes = snd (addNode 0 4 (snd (addNode 0 2 (init_path 0 0 (5 / 4) []))))"

definition half_inserted :: OkadaPath where
  "half_inserted = snd (insertNode 1 0 1 (init_path 0 0 (5 / 4) []))"

text \<open>The attribute assignments a caller makes on a path's segment
  (\<^verbatim>\<open>path.segments[i].enabled = b\<close>) and on a source (\<^verbatim>\<open>src.nu = v\<close>).\<close>

definition set_enabled :: "nat \<Rightarrow> bool \<Rightarrow> OkadaPath \<Rightarrow> OkadaPath" where
  "set_enabled i b self =
     self\<lparr>segments := (segments self)[i := (segments self ! i)\<lparr>enabled := b\<rparr>]\<rparr>"

definition set_nu :: "real \<Rightarrow> source \<Rightarrow> source" where
  "set_nu v src =
     (case src of
        Patch s \<Rightarrow> Patch (s\<lparr>OkadaSource.nu := v\<rparr>)
      | Path p \<Rightarrow> Path (p\<lparr>OkadaPath.nu := v\<rparr>))"

text \<open>Example sources: the two-node path with its only segment disabled, and two patches
  that differ in \<open>nu\<close> alone.\<close>

definition all_disabled :: OkadaPath where
  "all_disabled = set_enabled 0 False two_nodes"

definition scenario_patch :: OkadaSource where
  "scenario_patch =
     \<lparr>easting = 0, northing = 0, depth = 2000, width = 5000, length_m = 10000, strike = 45,
      dip = 45, rake = 90, slip = 3 / 2, nu = 5 / 4, opening = 0\<rparr>"

definition mixed_sources :: "source list" where
  "mixed_sources = [Patch scenario_patch, Patch (scenario_patch\<lparr>OkadaSource.nu := 2\<rparr>)]"

section \<open>Properties\<close>

text \<open>C6: entries 5 and 6 of the source vector are the patch's easting and northing,
  and entry 3 is \<open>- dip\<close>, except at \<open>dip = 90\<close>, where it is \<open>- (90 - 1e-5)\<close>; the vector
  has ten entries.\<close>

theorem dislocSource_entries:
  "length (dislocSource self) = 10
   \<and> dislocSource self ! 5 = easting self
   \<and> dislocSource self ! 6 = northing self
   \<and> dislocSource self ! 3 = (if dip self = 90 then - (90 - 1 / 100000) else - dip self)
   \<and> (0::real) < 1 / 100000"
  by (simp add: dislocSource_def Let_def)

subsection \<open>Shape of the node and segment sequences\<close>

lemmas path_eval =
  init_path_def insertNode_def moveNode_def addNode_def moveSegment_def newSegment_def
  float_div_def r2d_def setitem_def list_insert_def node_pair_def getitem_def norm_index_def
  Let_def

lemma moveSegment_shape:
  "moveSegment pos e1 n1 e2 n2 p = (r, p') \<Longrightarrow>
     nodes p' = nodes p \<and> length (segments p') = length (segments p)"
  by (auto simp: moveSegment_def Let_def split: sum.splits)

lemma length_list_insert: "length (list_insert xs i v) = Suc (length xs)"
  by (simp add: list_insert_def Let_def)

lemma setitem_length: "setitem xs i v = Inr ys \<Longrightarrow> length ys = length xs"
  by (auto simp: setitem_def split: sum.splits)

lemma addNode_shape:
  assumes "addNode e n p = (None, p')"
  shows "length (nodes p') = Suc (length (nodes p))
         \<and> length (segments p') = Suc (length (segments p))"
  using assms by (auto simp: addNode_def Let_def split: sum.splits prod.splits)

lemma insertNode_shape:
  assumes "insertNode pos e n p = (None, p')"
  shows "length (nodes p') = Suc (length (nodes p))
         \<and> length (segments p') = Suc (length (segments p))"
  using assms
  by (auto simp: insertNode_def Let_def length_list_insert split: sum.splits prod.splits
      dest!: moveSegment_shape)

lemma moveNode_shape:
  assumes "moveNode pos e n p = (r, p')"
  shows "length (nodes p') = length (nodes p) \<and> length (segments p') = length (segments p)"
  using assms
  by (auto simp: moveNode_def Let_def split: sum.splits prod.splits option.splits if_splits
      dest!: moveSegment_shape setitem_length)

lemma call_path_shape:
  assumes "call_path c p = (None, p')" and "length (nodes p) = Suc (length (segments p))"
  shows "length (nodes p') = Suc (length (segments p'))"
proof (cases c)
  case (AddNode e n)
  with assms show ?thesis using addNode_shape [of e n p p'] by (simp add: call_path_def)
next
  case (InsertNode pos e n)
  with assms show ?thesis using insertNode_shape [of pos e n p p'] by (simp add: call_path_def)
next
  case (MoveNode pos e n)
  with assms show ?thesis using moveNode_shape [of pos e n p None p'] by (simp add: call_path_def)
qed

lemma calls_ok_invariant:
  "calls_ok cs p0 = Some p \<Longrightarrow> length (nodes p0) = Suc (length (segments p0)) \<Longrightarrow>
     length (nodes p) = Suc (length (segments p))"
proof (induction cs arbitrary: p0)
  case Nil
  then show ?case by simp
next
  case (Cons c cs)
  obtain r p1 where step: "call_path c p0 = (r, p1)" by (cases "call_path c p0")
  with Cons.prems(1) have r: "r = None" and rest: "calls_ok cs p1 = Some p"
    by (cases r; simp)+
  from step r Cons.prems(2) have "length (nodes p1) = Suc (length (segments p1))"
    using call_path_shape by blast
  with rest show ?case by (rule Cons.IH)
qed

lemma addNode_two_nodes: "addNode 0 1 (init_path 0 0 (5 / 4) []) = (None, two_nodes)"
  by (simp add: two_nodes_def path_eval)

text \<open>C1, as amended: on a path constructed on its origin alone and edited by calls of
  addNode, insertNode and moveNode that all returned, a path of N \<ge> 2 nodes has N - 1
  segments.\<close>

theorem segments_count_after_successful_calls:
  "calls_ok cs (init_path oe on nu0 []) = Some p \<Longrightarrow> 2 \<le> length (nodes p) \<Longrightarrow>
     length (segments p) = length (nodes p) - 1"
  using calls_ok_invariant [of cs "init_path oe on nu0 []" p] by (simp add: init_path_def)

theorem segments_count_after_successful_calls_witness:
  "calls_ok [AddNode 0 1] (init_path 0 0 (5 / 4) []) = Some two_nodes
   \<and> 2 \<le> length (nodes two_nodes)
   \<and> length (segments two_nodes) = length (nodes two_nodes) - 1"
proof -
  have b: "calls_ok [AddNode 0 1] (init_path 0 0 (5 / 4) []) = Some two_nodes"
    by (simp add: call_path_def addNode_two_nodes)
  have n: "2 \<le> length (nodes two_nodes)"
    by (simp add: two_nodes_def path_eval)
  show ?thesis
    using b n segments_count_after_successful_calls [OF b n] by simp
qed

text \<open>C1, as stated, fails once a call has raised: on the path of the single node (0,0),
  \<^verbatim>\<open>insertNode(1, 0, 1)\<close> inserts the node and raises IndexError at
  \<^verbatim>\<open>self.nodes[pos+1]\<close>; the following \<^verbatim>\<open>moveNode(0, 5, 5)\<close> returns and leaves
  two nodes and no segment.\<close>

theorem segments_count_broken_after_failed_insert:
  "fst (insertNode 1 0 1 (init_path 0 0 (5 / 4) [])) = Some IndexError
   \<and> fst (moveNode 0 5 5 half_inserted) = None
   \<and> length (nodes (snd (moveNode 0 5 5 half_inserted))) = 2
   \<and> length (segments (snd (moveNode 0 5 5 half_inserted))) \<noteq> 2 - 1"
  by (simp add: half_inserted_def path_eval)

subsection \<open>Example paths, evaluated\<close>

lemma two_nodes_eq:
  "two_nodes = \<lparr>origin_easting = 0, origin_northing = 0, nu = 5 / 4, nodes = [(0, 0), (0, 1)],
      segments = [\<lparr>easting = 0, northing = 1 / 2, depth = 0, width = 15, length_m = 1,
        strike = 0, dip = 45, rake = 90, slip = 45, nu = 5 / 4, opening = 0, enabled = True\<rparr>]\<rparr>"
  by (simp add: two_nodes_def path_eval)

lemma three_nodes_eq:
  "three_nodes = \<lparr>origin_easting = 0, origin_northing = 0, nu = 5 / 4,
      nodes = [(0, 0), (0, 2), (0, 4)],
      segments =
       [\<lparr>easting = 0, northing = 1, depth = 0, width = 15 * 2 powr (66 / 100), length_m = 2,
         strike = 0, dip = 45, rake = 90, slip = 45, nu = 5 / 4, opening = 0, enabled = True\<rparr>,
        \<lparr>easting = 0, northing = 3, depth = 0, width = 15 * 2 powr (66 / 100), length_m = 2,
         strike = 0, dip = 45, rake = 90, slip = 45, nu = 5 / 4, opening = 0, enabled = True\<rparr>]\<rparr>"
  by (simp add: three_nodes_def path_eval)

subsection \<open>Editing at the ends of a path\<close>

text \<open>On a path that has one node more than it has segments, \<^verbatim>\<open>moveNode\<close> of the last
  node always raises: its second call of \<^verbatim>\<open>_moveSegment\<close> is given \<^verbatim>\<open>pos\<close>, one
  past the last segment.\<close>

lemma moveNode_last_raises:
  assumes "length (nodes p) = Suc (length (segments p))" and "segments p \<noteq> []"
  shows "fst (moveNode (int (length (segments p))) e n p) \<noteq> None"
  using assms
  by (auto simp: moveNode_def setitem_def node_pair_def getitem_def norm_index_def
      moveSegment_def float_div_def Let_def split: sum.splits prod.splits)

text \<open>C2, on the code: on the path with nodes (0,0), (0,1), \<^verbatim>\<open>moveNode(1, 0, 2)\<close> of
  the last node raises IndexError at \<^verbatim>\<open>self.segments[1]\<close>, and
  \<^verbatim>\<open>insertNode(0, 0, -1)\<close> at the first node returns after reading \<^verbatim>\<open>nodes[-1]\<close>
  and writing \<^verbatim>\<open>segments[-1]\<close>: the last segment then runs from the last node (0,1) to
  the new first node (0,-1), with length 2 and strike 180.\<close>

theorem move_last_and_insert_first_out_of_range:
  "fst (moveNode 1 0 2 two_nodes) = Some IndexError
   \<and> fst (insertNode 0 0 (- 1) two_nodes) = None
   \<and> nodes (snd (insertNode 0 0 (- 1) two_nodes)) = [(0, - 1), (0, 0), (0, 1)]
   \<and> map northing (segments (snd (insertNode 0 0 (- 1) two_nodes))) = [1 / 2, 0]
   \<and> map length_m (segments (snd (insertNode 0 0 (- 1) two_nodes))) = [1, 2]
   \<and> map strike (segments (snd (insertNode 0 0 (- 1) two_nodes))) = [0, 180]"
  by (simp add: two_nodes_eq path_eval)

subsection \<open>Moving and inserting an interior node\<close>

text \<open>What the two edits do to the segments on every path: a \<^verbatim>\<open>moveNode\<close> that returns
  has written to no segment but the one at index \<^verbatim>\<open>pos\<close>, and an \<^verbatim>\<open>insertNode\<close>
  that returns has put the segment of the node pair (pos, pos+1) last.\<close>

lemma moveSegment_others:
  assumes "0 \<le> pos" and "j \<noteq> nat pos"
  shows "segments (snd (moveSegment pos e1 n1 e2 n2 p)) ! j = segments p ! j"
  using assms
  by (auto simp: moveSegment_def norm_index_def Let_def split: sum.splits if_splits)

lemma moveNode_touches_only_pos:
  assumes "moveNode pos e n p = (None, p')" and "0 \<le> pos"
  shows "\<forall>j < length (segments p). j \<noteq> nat pos \<longrightarrow> segments p' ! j = segments p ! j"
proof (intro allI impI)
  fix j assume "j < length (segments p)" and j: "j \<noteq> nat pos"
  note keep = moveSegment_others [OF assms(2) j]
  from assms(1) obtain ns where ns: "setitem (nodes p) pos (e, n) = Inr ns"
    by (auto simp: moveNode_def split: sum.splits)
  define p1 where "p1 = p\<lparr>nodes := ns\<rparr>"
  have s1: "segments p1 = segments p" by (simp add: p1_def)
  define r1 where "r1 =
    (if pos < int (length (segments p1))
     then (case node_pair (nodes p1) pos (pos + 1) of
             Inl err \<Rightarrow> (Some err, p1)
           | Inr (e1, n1, e2, n2) \<Rightarrow> moveSegment pos e1 n1 e2 n2 p1)
     else (None, p1))"
  have s2: "segments (snd r1) ! j = segments p1 ! j"
    by (auto simp: r1_def keep split: sum.splits prod.splits)
  have mn: "moveNode pos e n p =
      (case r1 of
         (Some err, self2) \<Rightarrow> (Some err, self2)
       | (None, self2) \<Rightarrow>
           (if pos \<noteq> 0
            then (case node_pair (nodes self2) (pos - 1) pos of
                    Inl err \<Rightarrow> (Some err, self2)
                  | Inr (e1, n1, e2, n2) \<Rightarrow> moveSegment pos e1 n1 e2 n2 self2)
            else (None, self2)))"
    unfolding moveNode_def r1_def p1_def Let_def ns by simp
  obtain a b where ab: "r1 = (a, b)" by (cases r1)
  from assms(1) have a: "a = None"
    unfolding mn ab by (cases a) simp_all
  from assms(1) have fin: "p' = snd
         (if pos \<noteq> 0
          then (case node_pair (nodes b) (pos - 1) pos of
                  Inl err \<Rightarrow> (Some err, b)
                | Inr (e1, n1, e2, n2) \<Rightarrow> moveSegment pos e1 n1 e2 n2 b)
          else (None, b))"
    unfolding mn ab a by simp
  have "segments p' ! j = segments b ! j"
    unfolding fin by (auto simp: keep split: sum.splits prod.splits)
  then have "segments p' ! j = segments (snd r1) ! j"
    by (simp add: ab)
  with s1 s2 show "segments p' ! j = segments p ! j" by simp
qed

lemma insertNode_new_segment_is_last:
  assumes "insertNode pos e n p = (None, p')"
    and "1 \<le> pos" and "pos \<le> int (length (segments p))"
  shows "\<exists>e1 n1 e2 n2 seg. node_pair (nodes p') pos (pos + 1) = Inr (e1, n1, e2, n2)
           \<and> newSegment e1 n1 e2 n2 (\<lambda>s. s) = Inr seg \<and> last (segments p') = seg
           \<and> length (segments p') = Suc (length (segments p))"
  using assms
  by (auto simp: insertNode_def moveSegment_def norm_index_def Let_def last_list_update
      split: sum.splits prod.splits if_splits)

text \<open>C3, on the code: on the path with nodes (0,0), (0,2), (0,4), \<^verbatim>\<open>moveNode(1, 0, 1)\<close>
  returns, leaves segment 0 as it was (midpoint northing 1, length 2, although its nodes
  are now (0,0) and (0,1)), and leaves in segment 1 the geometry of the node pair (0, 1)
  (midpoint northing 1/2, length 1) instead of that of the pair (1, 2).\<close>

theorem moveNode_overwrites_following_segment:
  "fst (moveNode 1 0 1 three_nodes) = None
   \<and> nodes (snd (moveNode 1 0 1 three_nodes)) = [(0, 0), (0, 1), (0, 4)]
   \<and> segments (snd (moveNode 1 0 1 three_nodes)) ! 0 = segments three_nodes ! 0
   \<and> map northing (segments (snd (moveNode 1 0 1 three_nodes))) = [1, 1 / 2]
   \<and> map length_m (segments (snd (moveNode 1 0 1 three_nodes))) = [2, 1]"
  by (simp add: three_nodes_eq path_eval)

text \<open>C5, on the code: on the path with nodes (0,0), (0,2), (0,4),
  \<^verbatim>\<open>insertNode(1, 0, 1)\<close> returns with the new segment, of the node pair (1, 2)
  (midpoint northing 3/2, length 1), at the end of the sequence, index 2; index 1 still
  holds the segment of the nodes (0,2) and (0,4).\<close>

theorem insertNode_appends_new_segment:
  "fst (insertNode 1 0 1 three_nodes) = None
   \<and> nodes (snd (insertNode 1 0 1 three_nodes)) = [(0, 0), (0, 1), (0, 2), (0, 4)]
   \<and> map northing (segments (snd (insertNode 1 0 1 three_nodes))) = [1 / 2, 3, 3 / 2]
   \<and> map length_m (segments (snd (insertNode 1 0 1 three_nodes))) = [1, 2, 1]"
  by (simp add: three_nodes_eq path_eval)

subsection \<open>Segment derivation\<close>

text \<open>Where the builtin division does not raise, the two readings of \<^verbatim>\<open>_newSegment\<close>
  give the same segment: they differ on a zero length only.\<close>

lemma cosine_in_range:
  fixes dN dE :: real
  assumes "sqrt (dN\<^sup>2 + dE\<^sup>2) \<noteq> 0"
  shows "- 1 \<le> dN / sqrt (dN\<^sup>2 + dE\<^sup>2) \<and> dN / sqrt (dN\<^sup>2 + dE\<^sup>2) \<le> 1"
proof -
  have "\<bar>dN\<bar> = sqrt (dN\<^sup>2)" by simp
  also have "\<dots> \<le> sqrt (dN\<^sup>2 + dE\<^sup>2)" by (rule real_sqrt_le_mono) simp
  finally have le: "\<bar>dN\<bar> \<le> sqrt (dN\<^sup>2 + dE\<^sup>2)" .
  have pos: "0 < sqrt (dN\<^sup>2 + dE\<^sup>2)"
    using assms real_sqrt_ge_zero [of "dN\<^sup>2 + dE\<^sup>2"] by (simp add: less_le)
  from le have up: "dN \<le> sqrt (dN\<^sup>2 + dE\<^sup>2)" and lo: "- sqrt (dN\<^sup>2 + dE\<^sup>2) \<le> dN"
    by linarith+
  from pos up have "dN / sqrt (dN\<^sup>2 + dE\<^sup>2) \<le> 1" by (simp add: divide_le_eq)
  moreover from pos lo have "- 1 \<le> dN / sqrt (dN\<^sup>2 + dE\<^sup>2)" by (simp add: le_divide_eq)
  ultimately show ?thesis by simp
qed

lemma newSegment_numpy_agrees:
  assumes "newSegment e1 n1 e2 n2 (\<lambda>s. s) = Inr s"
  shows "\<exists>t. newSegment_numpy e1 n1 e2 n2 (\<lambda>s. s) = Inr t
           \<and> np_strike t = Finite (strike s) \<and> np_length t = length_m s
           \<and> np_width t = width s \<and> np_easting t = easting s \<and> np_northing t = northing s"
proof -
  let ?len = "sqrt ((n2 - n1)\<^sup>2 + (e2 - e1)\<^sup>2)"
  from assms have nz: "?len \<noteq> 0"
    by (auto simp: newSegment_def float_div_def Let_def split: if_splits)
  note r = cosine_in_range [OF nz]
  from assms nz r show ?thesis
    by (auto simp: newSegment_def newSegment_numpy_def float_div_def numpy_div_def
        numpy_arccos_def numpy_mult_def Let_def)
qed

text \<open>C4, as amended: on coordinates that are builtin floats, deriving a segment from
  two coincident points raises ZeroDivisionError, in \<^verbatim>\<open>_newSegment\<close> and in
  \<^verbatim>\<open>_moveSegment\<close> (which leaves the path as it was): the length is 0 and
  \<^verbatim>\<open>dN/length\<close> raises before any segment is built or changed.\<close>

theorem coincident_nodes_raise:
  "newSegment e n e n kwargs = Inl ZeroDivisionError
   \<and> moveSegment pos e n e n p = (Some ZeroDivisionError, p)"
  by (simp add: newSegment_def moveSegment_def float_div_def)

text \<open>C4, as stated, fails on \<^verbatim>\<open>numpy.float64\<close> coordinates: the module has no check of
  the length, and for the coincident points (0,0), (0,0) \<^verbatim>\<open>_newSegment\<close> returns a
  segment of length 0 whose strike is NaN.\<close>

theorem coincident_numpy_nodes_give_nan_strike:
  "newSegment_numpy 0 0 0 0 (\<lambda>s. s) =
     Inr \<lparr>np_easting = 0, np_northing = 0, np_depth = 0, np_width = 0, np_length = 0,
          np_strike = NaN, np_dip = 45, np_rake = 90, np_slip = 45, np_nu = 5 / 4,
          np_opening = 0, np_enabled = True\<rparr>"
  by (simp add: newSegment_numpy_def numpy_div_def numpy_arccos_def numpy_mult_def)

text \<open>C7: for L > 0 the segment from (0,0) to (0,L) has length L and strike 0, and the
  segment from (0,0) to (L,0) has strike 90.\<close>

theorem segment_due_north_and_east:
  assumes "0 < L"
  shows "(\<exists>s. newSegment 0 0 0 L (\<lambda>s. s) = Inr s \<and> length_m s = L \<and> strike s = 0)
       \<and> (\<exists>s. newSegment 0 0 L 0 (\<lambda>s. s) = Inr s \<and> strike s = 90)"
  using assms by (simp add: newSegment_def float_div_def r2d_def)

theorem segment_due_north_and_east_witness:
  "(0::real) < 3
   \<and> (\<exists>s. newSegment 0 0 0 3 (\<lambda>s. s) = Inr s \<and> length_m s = 3 \<and> strike s = 0)
   \<and> (\<exists>s. newSegment 0 0 3 0 (\<lambda>s. s) = Inr s \<and> strike s = 90)"
  using segment_due_north_and_east [of 3] by simp

subsection \<open>Disabled segments\<close>




subsection \<open>The processor\<close>

text \<open>C9, as amended: with an empty sources sequence \<^verbatim>\<open>process\<close> raises (ValueError,
  from \<^verbatim>\<open>vstack\<close>) before the native routine is called, whatever that routine does.\<close>

theorem empty_sources_raise:
  "solver_call [] cs nt = Inl ValueError \<and> process disloc [] cs nt = Inl ValueError"
  by (simp add: solver_call_def process_def vstack_def)

text \<open>C9, as stated, fails for sources whose segments are all disabled: the path's
  \<^verbatim>\<open>dislocSource()\<close> is an array of shape (0,), \<^verbatim>\<open>vstack\<close> makes of it a matrix of
  one row and no column, and the native routine is called with it.\<close>

theorem disabled_sources_reach_solver:
  "filter enabled (segments all_disabled) = []
   \<and> solver_call [Path all_disabled] [(0::real, 0::real)] 0
       = Inr \<lparr>src_arr = [[]], coords = [(0, 0)], arg_nu = 5 / 4, nthreads = 0\<rparr>"
  by (simp add: all_disabled_def set_enabled_def two_nodes_eq solver_call_def vstack_def
      source_dislocSource_def path_dislocSource_def num_array_def atleast_2d_def source_nu_def)

lemma source_dislocSource_set_nu: "source_dislocSource (set_nu v src) = source_dislocSource src"
  by (cases src)
    (simp_all add: set_nu_def source_dislocSource_def dislocSource_def path_dislocSource_def)

lemma map_dislocSource_update:
  "map source_dislocSource (srcs[i := set_nu v (srcs ! i)]) = map source_dislocSource srcs"
proof -
  have "map source_dislocSource (srcs[i := set_nu v (srcs ! i)])
          = (map source_dislocSource srcs)[i := source_dislocSource (srcs ! i)]"
    by (simp add: map_update source_dislocSource_set_nu)
  also have "\<dots> = map source_dislocSource srcs"
    by (metis list_update_id map_update)
  finally show ?thesis .
qed

lemma last_update_other:
  assumes "i < length xs - 1"
  shows "last (xs[i := x]) = last xs"
proof -
  from assms have "xs \<noteq> []" and "i \<noteq> length xs - 1" by auto
  then show ?thesis by (simp add: last_list_update)
qed

lemma vstack_patches:
  assumes "ps \<noteq> []"
  shows "vstack (map source_dislocSource (map Patch ps)) = Inr (map dislocSource ps)"
proof -
  have m: "map atleast_2d (map source_dislocSource (map Patch ps)) = map (\<lambda>s. [dislocSource s]) ps"
    by (simp add: source_dislocSource_def atleast_2d_def)
  have c: "concat (map (\<lambda>s. [dislocSource s]) ps) = map dislocSource ps"
    by (induction ps) simp_all
  obtain q qs where ps: "ps = q # qs" using assms by (cases ps) auto
  have n: "list_all (\<lambda>m'. ncols m' = ncols [dislocSource q]) (map (\<lambda>s. [dislocSource s]) qs)"
    by (simp add: list_all_iff ncols_def dislocSource_def Let_def)
  show ?thesis
    unfolding vstack_def m using n c by (simp add: ps)
qed

text \<open>C10: with two or more sources, whenever the stacking succeeds \<^verbatim>\<open>process\<close> calls the
  native routine with the \<open>nu\<close> of the last source and returns what the routine returns
  (its three columns, or its exception), adding no check of its own. The stacking does not
  read \<open>nu\<close> and succeeds on every batch of patches, so a batch of mixed \<open>nu\<close> is not
  rejected; setting the \<open>nu\<close> of any source but the last to any value changes neither
  the call nor the result.\<close>

theorem solver_nu_is_last_source_nu:
  assumes "2 \<le> length sources" and "i < length sources - 1"
  shows "(\<forall>arr. vstack (map source_dislocSource sources) = Inr arr \<longrightarrow>
            process disloc sources cs nt =
              (case disloc \<lparr>src_arr = arr, coords = cs, arg_nu = source_nu (last sources),
                            nthreads = nt\<rparr> of
                 Inl err \<Rightarrow> Inl err
               | Inr res \<Rightarrow>
                   Inr \<lparr>processor_profile = [], north = map (\<lambda>(x, y, z). x) res,
                        east = map (\<lambda>(x, y, z). y) res, down = map (\<lambda>(x, y, z). z) res\<rparr>))
       \<and> (\<forall>ps. sources = map Patch ps \<longrightarrow>
            vstack (map source_dislocSource sources) = Inr (map dislocSource ps))
       \<and> vstack (map source_dislocSource (sources[i := set_nu v (sources ! i)]))
           = vstack (map source_dislocSource sources)
       \<and> (\<forall>args. solver_call sources cs nt = Inr args
            \<longrightarrow> arg_nu args = source_nu (last sources))
       \<and> solver_call (sources[i := set_nu v (sources ! i)]) cs nt = solver_call sources cs nt
       \<and> process disloc (sources[i := set_nu v (sources ! i)]) cs nt
           = process disloc sources cs nt"
proof -
  have l: "last (sources[i := set_nu v (sources ! i)]) = last sources"
    using assms(2) by (rule last_update_other)
  have p: "\<forall>arr. vstack (map source_dislocSource sources) = Inr arr \<longrightarrow>
            process disloc sources cs nt =
              (case disloc \<lparr>src_arr = arr, coords = cs, arg_nu = source_nu (last sources),
                            nthreads = nt\<rparr> of
                 Inl err \<Rightarrow> Inl err
               | Inr res \<Rightarrow>
                   Inr \<lparr>processor_profile = [], north = map (\<lambda>(x, y, z). x) res,
                        east = map (\<lambda>(x, y, z). y) res, down = map (\<lambda>(x, y, z). z) res\<rparr>)"
    by (simp add: process_def solver_call_def)
  have q: "\<forall>ps. sources = map Patch ps \<longrightarrow>
            vstack (map source_dislocSource sources) = Inr (map dislocSource ps)"
  proof (intro allI impI)
    fix ps assume s: "sources = map Patch ps"
    with assms(1) have "ps \<noteq> []" by auto
    then show "vstack (map source_dislocSource sources) = Inr (map dislocSource ps)"
      unfolding s by (rule vstack_patches)
  qed
  have s: "vstack (map source_dislocSource (sources[i := set_nu v (sources ! i)]))
             = vstack (map source_dislocSource sources)"
    by (simp only: map_dislocSource_update)
  have a: "\<forall>args. solver_call sources cs nt = Inr args
             \<longrightarrow> arg_nu args = source_nu (last sources)"
    by (auto simp: solver_call_def split: sum.splits)
  have b: "solver_call (sources[i := set_nu v (sources ! i)]) cs nt = solver_call sources cs nt"
    unfolding solver_call_def map_dislocSource_update l ..
  have c: "process disloc (sources[i := set_nu v (sources ! i)]) cs nt
             = process disloc sources cs nt"
    by (simp add: process_def b)
  show ?thesis using p q s a b c by blast
qed

lemma mixed_sources_call:
  "solver_call mixed_sources [(0::real, 0::real)] 0
     = Inr \<lparr>src_arr = [dislocSource scenario_patch,
                       dislocSource (scenario_patch\<lparr>OkadaSource.nu := 2\<rparr>)],
            coords = [(0, 0)], arg_nu = 2, nthreads = 0\<rparr>"
  by (simp add: mixed_sources_def solver_call_def vstack_def source_dislocSource_def
      atleast_2d_def ncols_def dislocSource_def source_nu_def Let_def)

lemma mixed_sources_stack:
  "vstack (map source_dislocSource mixed_sources)
     = Inr [dislocSource scenario_patch, dislocSource (scenario_patch\<lparr>OkadaSource.nu := 2\<rparr>)]"
  by (simp add: mixed_sources_def vstack_def source_dislocSource_def
      atleast_2d_def ncols_def dislocSource_def Let_def)

theorem solver_nu_is_last_source_nu_witness:
  "2 \<le> length mixed_sources \<and> 0 < length mixed_sources - 1
   \<and> source_nu (mixed_sources ! 0) \<noteq> source_nu (last mixed_sources)
   \<and> process (\<lambda>a. Inr [(arg_nu a, 0, 0)]) mixed_sources [(0::real, 0::real)] 0
       = Inr \<lparr>processor_profile = [], north = [2], east = [0], down = [0]\<rparr>
   \<and> (\<exists>args. solver_call mixed_sources [(0::real, 0::real)] 0 = Inr args \<and> arg_nu args = 2)
   \<and> solver_call (mixed_sources[0 := set_nu 7 (mixed_sources ! 0)]) [(0::real, 0::real)] 0
       = solver_call mixed_sources [(0, 0)] 0"
proof -
  have h1: "2 \<le> length mixed_sources" by (simp add: mixed_sources_def)
  have h2: "0 < length mixed_sources - 1" by (simp add: mixed_sources_def)
  have d: "source_nu (mixed_sources ! 0) \<noteq> source_nu (last mixed_sources)"
    by (simp add: mixed_sources_def source_nu_def scenario_patch_def)
  have n: "source_nu (last mixed_sources) = 2"
    by (simp add: mixed_sources_def source_nu_def)
  note t = solver_nu_is_last_source_nu [OF h1 h2, of "\<lambda>a. Inr [(arg_nu a, 0, 0)]"
      "[(0::real, 0::real)]" 0 7]
  have pr: "process (\<lambda>a. Inr [(arg_nu a, 0, 0)]) mixed_sources [(0::real, 0::real)] 0
       = Inr \<lparr>processor_profile = [], north = [2], east = [0], down = [0]\<rparr>"
    using t mixed_sources_stack n by simp
  show ?thesis
    using h1 h2 d pr mixed_sources_call t by simp
qed

end
